theory Spec2Isabelle
  imports Main "HOL-Library.Sublist"
begin

section \<open>JavaScript values used by the publisher agent\<close>

text \<open>
  Strings are \<^typ>\<open>string\<close>. A value that a \<^verbatim>\<open>throw\<close> (or a rejected promise) carries is
  either an instance of \<^verbatim>\<open>Error\<close>, kept as \<open>JsError\<close> of its \<^verbatim>\<open>message\<close>, or any other
  value (a string, a plain object, ...), of which only a description is kept. A computation
  that may throw returns \<open>Inl\<close> of the thrown value or \<open>Inr\<close> of its result. An awaited
  promise is modelled by the value it settles to: calls into the wallet, HTTP and storage
  libraries are taken to settle, by a result or by a throw.
\<close>

datatype js_thrown = JsError string | JsOther string

type_synonym 'a js_result = "js_thrown + 'a"

text \<open>
  \<^verbatim>\<open>!v\<close> for a value of type \<^verbatim>\<open>string | undefined\<close>: \<^verbatim>\<open>undefined\<close> and the empty string are
  the falsy ones.
\<close>

definition falsy :: "string option \<Rightarrow> bool" where
  "falsy v = (case v of None \<Rightarrow> True | Some s \<Rightarrow> s = [])"

text \<open>What a template literal \<^verbatim>\<open>${v}\<close> prints for a value of type \<^verbatim>\<open>string | undefined\<close>.\<close>

definition templateString :: "string option \<Rightarrow> string" where
  "templateString v = (case v of None \<Rightarrow> ''undefined'' | Some s \<Rightarrow> s)"

section \<open>The contract invoker (adAgent.ts)\<close>

subsection \<open>ABI descriptors and the wallet capability\<close>

record abiInputOutput =
  internalType :: "string option"
  ioName :: string
  ioType :: string

record abiFunction =
  name :: string
  "type" :: string
  inputs :: "abiInputOutput list"
  outputs :: "abiInputOutput list option"
  stateMutability :: "string option"

text \<open>
  The options object \<^verbatim>\<open>{contractAddress, method, args, abi}\<close> handed to
  \<^verbatim>\<open>wallet.invokeContract\<close>; the fields carry a prefix to keep them apart from the
  parameters of the same names.
\<close>

record invokeRequest =
  req_contractAddress :: string
  req_method :: string
  req_args :: "string \<rightharpoonup> string"
  req_abi :: "abiFunction list"

text \<open>
  The wallet is an external capability. Its submission either throws or yields a contract
  invocation; waiting on that either throws or yields a receipt; the receipt's hash getter
  yields a string or \<^verbatim>\<open>undefined\<close> (or throws). The wallet also records every submission
  it was asked to make, in order, so that "no submission was attempted" can be stated.
\<close>

record transactionReceipt =
  getTransactionHash :: "string option js_result"

record contractInvocation =
  wait :: "transactionReceipt js_result"

record wallet =
  sdkInvokeContract :: "invokeRequest \<Rightarrow> contractInvocation js_result"
  submitted :: "invokeRequest list"

definition wallet_invokeContract ::
  "wallet \<Rightarrow> invokeRequest \<Rightarrow> contractInvocation js_result \<times> wallet" where
  "wallet_invokeContract w req = (sdkInvokeContract w req, w\<lparr>submitted := submitted w @ [req]\<rparr>)"

definition AD_CONTRACT_ADDRESS :: string where
  "AD_CONTRACT_ADDRESS = ''0xF714043eE1176B16dd6C9E9beB260D6b4D8eab95''"

definition AD_CONTRACT_ABI :: "abiFunction list" where
  "AD_CONTRACT_ABI =
     [\<lparr>name = ''createAd'', type = ''function'',
       inputs =
         [\<lparr>internalType = Some ''address'', ioName = ''to'', ioType = ''address''\<rparr>,
          \<lparr>internalType = Some ''string'', ioName = ''title'', ioType = ''string''\<rparr>,
          \<lparr>internalType = Some ''string'', ioName = ''text'', ioType = ''string''\<rparr>,
          \<lparr>internalType = Some ''string'', ioName = ''imageURL'', ioType = ''string''\<rparr>],
       outputs = Some [\<lparr>internalType = Some ''uint256'', ioName = '''', ioType = ''uint256''\<rparr>],
       stateMutability = Some ''nonpayable''\<rparr>]"

subsection \<open>invokeContract\<close>

text \<open>
  The body of the \<^verbatim>\<open>try\<close> block: \<open>Inl\<close> is a value thrown inside it, \<open>Inr\<close> a string it
  returns. The second component is the wallet after the call.
\<close>

definition invokeContract_try ::
  "wallet \<Rightarrow> string \<Rightarrow> string \<Rightarrow> abiFunction list \<Rightarrow> (string \<rightharpoonup> string)
     \<Rightarrow> string js_result \<times> wallet" where
  "invokeContract_try wallet contractAddress method abi args =
     (case find (\<lambda>func. name func = method) abi of
        None \<Rightarrow> (Inl (JsError (''Method '' @ method @ '' not found in ABI'')), wallet)
      | Some methodAbi \<Rightarrow>
          (case wallet_invokeContract wallet
                  \<lparr>req_contractAddress = contractAddress, req_method = method,
                    req_args = args, req_abi = abi\<rparr> of
             (Inl thrown, wallet') \<Rightarrow> (Inl thrown, wallet')
           | (Inr contractInvocation, wallet') \<Rightarrow>
               (case wait contractInvocation of
                  Inl thrown \<Rightarrow> (Inl thrown, wallet')
                | Inr receipt \<Rightarrow>
                    (case getTransactionHash receipt of
                       Inl thrown \<Rightarrow> (Inl thrown, wallet')
                     | Inr txHash \<Rightarrow>
                         if falsy txHash
                         then (Inr ''Contract invocation completed, but transaction hash is not available'',
                               wallet')
                         else (Inr (''Ad Created successfully. Transaction hash: https://sepolia.basescan.org/tx/''
                                    @ templateString txHash @ '' '' @ [CHR 0x0A]
                                    @ '' https://testnets.opensea.io/'' @ templateString (args ''to'')),
                               wallet')))))"

text \<open>The \<^verbatim>\<open>catch\<close> clause: what is returned for a value thrown in the \<^verbatim>\<open>try\<close> block.\<close>

definition invokeContract_catch :: "js_thrown \<Rightarrow> string" where
  "invokeContract_catch error =
     (case error of
        JsError msg \<Rightarrow> ''Failed to publish ad: '' @ msg
      | JsOther _ \<Rightarrow> ''Failed to publish ad due to an unknown error'')"

text \<open>
  The whole function. Its result type still allows a thrown value (\<open>Inl\<close>); that none
  escapes is a theorem below, not a consequence of the type.
\<close>

definition invokeContract ::
  "wallet \<Rightarrow> string \<Rightarrow> string \<Rightarrow> abiFunction list \<Rightarrow> (string \<rightharpoonup> string)
     \<Rightarrow> string js_result \<times> wallet" where
  "invokeContract wallet contractAddress method abi args =
     (case invokeContract_try wallet contractAddress method abi args of
        (Inr result, wallet') \<Rightarrow> (Inr result, wallet')
      | (Inl error, wallet') \<Rightarrow> (Inr (invokeContract_catch error), wallet'))"

subsection \<open>The copy of the invoker in the publishAd program\<close>

text \<open>
  The repository holds further copies of the agent program. One publishes through a
  contract method publishAd that takes no image; its copy of the function differs in the
  success message only, which has no marketplace link. (The copy in the third program is
  the one above, word for word.)
\<close>

definition invokeContract_try_publishAd ::
  "wallet \<Rightarrow> string \<Rightarrow> string \<Rightarrow> abiFunction list \<Rightarrow> (string \<rightharpoonup> string)
     \<Rightarrow> string js_result \<times> wallet" where
  "invokeContract_try_publishAd wallet contractAddress method abi args =
     (case find (\<lambda>func. name func = method) abi of
        None \<Rightarrow> (Inl (JsError (''Method '' @ method @ '' not found in ABI'')), wallet)
      | Some methodAbi \<Rightarrow>
          (case wallet_invokeContract wallet
                  \<lparr>req_contractAddress = contractAddress, req_method = method,
                    req_args = args, req_abi = abi\<rparr> of
             (Inl thrown, wallet') \<Rightarrow> (Inl thrown, wallet')
           | (Inr contractInvocation, wallet') \<Rightarrow>
               (case wait contractInvocation of
                  Inl thrown \<Rightarrow> (Inl thrown, wallet')
                | Inr receipt \<Rightarrow>
                    (case getTransactionHash receipt of
                       Inl thrown \<Rightarrow> (Inl thrown, wallet')
                     | Inr txHash \<Rightarrow>
                         if falsy txHash
                         then (Inr ''Contract invocation completed, but transaction hash is not available'',
                               wallet')
                         else (Inr (''Ad published successfully. Transaction hash: https://sepolia.basescan.org/tx/''
                                    @ templateString txHash),
                               wallet')))))"

definition invokeContract_publishAd ::
  "wallet \<Rightarrow> string \<Rightarrow> string \<Rightarrow> abiFunction list \<Rightarrow> (string \<rightharpoonup> string)
     \<Rightarrow> string js_result \<times> wallet" where
  "invokeContract_publishAd wallet contractAddress method abi args =
     (case invokeContract_try_publishAd wallet contractAddress method abi args of
        (Inr result, wallet') \<Rightarrow> (Inr result, wallet')
      | (Inl error, wallet') \<Rightarrow> (Inr (invokeContract_catch error), wallet'))"

subsection \<open>Wallet stubs and the arguments of the spec's example\<close>

text \<open>
  A wallet whose submission is confirmed with a receipt carrying the given hash (or no
  hash), one whose submission throws, and one whose wait for the receipt throws. None has
  been asked for a submission yet.
\<close>

definition receiptWallet :: "string option \<Rightarrow> wallet" where
  "receiptWallet txHash =
     \<lparr>sdkInvokeContract = (\<lambda>req. Inr \<lparr>wait = Inr \<lparr>getTransactionHash = Inr txHash\<rparr>\<rparr>),
      submitted = []\<rparr>"

definition submitThrowsWallet :: "js_thrown \<Rightarrow> wallet" where
  "submitThrowsWallet thrown = \<lparr>sdkInvokeContract = (\<lambda>req. Inl thrown), submitted = []\<rparr>"

definition waitThrowsWallet :: "js_thrown \<Rightarrow> wallet" where
  "waitThrowsWallet thrown =
     \<lparr>sdkInvokeContract = (\<lambda>req. Inr \<lparr>wait = Inl thrown\<rparr>), submitted = []\<rparr>"

definition exampleArgs :: "string \<rightharpoonup> string" where
  "exampleArgs = [''to'' \<mapsto> ''0xabc...'', ''title'' \<mapsto> ''T'', ''text'' \<mapsto> ''X'',
                   ''imageURL'' \<mapsto> ''https://s3/...'']"

section \<open>Strings: lower case and trimming\<close>

text \<open>
  A character of a \<^typ>\<open>string\<close> stands for the code point with its number, so the strings
  here are the JavaScript strings over U+0000 to U+00FF (ASCII and the Latin-1 supplement);
  code points above U+00FF are outside this type.

  \<^verbatim>\<open>String.prototype.toLowerCase\<close> on these strings: the upper-case letters are A to Z and
  U+00C0 to U+00DE without the multiplication sign U+00D7; each is mapped to the letter 32
  places after it, and every other character is left as it is.
\<close>

definition upperCaseLetters :: string where
  "upperCaseLetters =
     ''ABCDEFGHIJKLMNOPQRSTUVWXYZ'' @
       [CHR 0xC0, CHR 0xC1, CHR 0xC2, CHR 0xC3, CHR 0xC4, CHR 0xC5, CHR 0xC6, CHR 0xC7,
        CHR 0xC8, CHR 0xC9, CHR 0xCA, CHR 0xCB, CHR 0xCC, CHR 0xCD, CHR 0xCE, CHR 0xCF,
        CHR 0xD0, CHR 0xD1, CHR 0xD2, CHR 0xD3, CHR 0xD4, CHR 0xD5, CHR 0xD6, CHR 0xD8,
        CHR 0xD9, CHR 0xDA, CHR 0xDB, CHR 0xDC, CHR 0xDD, CHR 0xDE]"

definition lowerCaseLetters :: string where
  "lowerCaseLetters =
     ''abcdefghijklmnopqrstuvwxyz'' @
       [CHR 0xE0, CHR 0xE1, CHR 0xE2, CHR 0xE3, CHR 0xE4, CHR 0xE5, CHR 0xE6, CHR 0xE7,
        CHR 0xE8, CHR 0xE9, CHR 0xEA, CHR 0xEB, CHR 0xEC, CHR 0xED, CHR 0xEE, CHR 0xEF,
        CHR 0xF0, CHR 0xF1, CHR 0xF2, CHR 0xF3, CHR 0xF4, CHR 0xF5, CHR 0xF6, CHR 0xF8,
        CHR 0xF9, CHR 0xFA, CHR 0xFB, CHR 0xFC, CHR 0xFD, CHR 0xFE]"

definition toLowerCaseChar :: "char \<Rightarrow> char" where
  "toLowerCaseChar c =
     (case map_of (zip upperCaseLetters lowerCaseLetters) c of
        Some l \<Rightarrow> l
      | None \<Rightarrow> c)"

definition toLowerCase :: "string \<Rightarrow> string" where
  "toLowerCase s = map toLowerCaseChar s"

section \<open>Startup validation of the environment (adAgent.ts)\<close>

text \<open>
  \<^verbatim>\<open>process.env\<close> is a map from names to strings. The function writes lines with
  \<^verbatim>\<open>console.error\<close> and \<^verbatim>\<open>console.warn\<close> and may end the process with
  \<^verbatim>\<open>process.exit(1)\<close>; the model returns the lines written and the exit status, \<open>None\<close>
  when the function returns to its caller.
\<close>

record validation =
  errorLines :: "string list"
  warnLines :: "string list"
  exitCode :: "nat option"

definition requiredVars :: "string list" where
  "requiredVars = [''OPENAI_API_KEY'', ''CDP_API_KEY_NAME'', ''CDP_API_KEY_PRIVATE_KEY'']"

text \<open>The line \<^verbatim>\<open>`${varName}=your_${varName.toLowerCase()}_here`\<close>.\<close>

definition missingVarLine :: "string \<Rightarrow> string" where
  "missingVarLine varName = varName @ ''=your_'' @ toLowerCase varName @ ''_here''"

definition validateEnvironment :: "(string \<rightharpoonup> string) \<Rightarrow> validation" where
  "validateEnvironment env =
     (let missingVars = filter (\<lambda>varName. falsy (env varName)) requiredVars in
      if length missingVars > 0
      then \<lparr>errorLines = ''Error: Required environment variables are not set''
                          # map missingVarLine missingVars,
            warnLines = [],
            exitCode = Some 1\<rparr>
      else \<lparr>errorLines = [],
            warnLines = (if falsy (env ''NETWORK_ID'')
                         then [''Warning: NETWORK_ID not set, defaulting to base-sepolia testnet'']
                         else []),
            exitCode = None\<rparr>)"


section \<open>Configuration of the wallet toolkit (initializeAgent, adAgent.ts)\<close>

text \<open>
  The wallet data file: \<open>None\<close> when it does not exist, \<open>Some (Inl e)\<close> when reading it
  throws (the error is logged and the start goes on without wallet data), \<open>Some (Inr s)\<close>
  when it holds \<open>s\<close>.
\<close>

definition readWalletData :: "string js_result option \<Rightarrow> string option" where
  "readWalletData walletFile =
     (case walletFile of
        None \<Rightarrow> None
      | Some (Inl error) \<Rightarrow> None
      | Some (Inr content) \<Rightarrow> Some content)"

record agentkitConfig =
  cdpWalletData :: "string option"
  networkId :: string

text \<open>
  The object \<^verbatim>\<open>config\<close> that initializeAgent passes to \<^verbatim>\<open>CdpAgentkit.configureWithWallet\<close>.
  The process environment is in scope where the object is built, so it is a parameter here;
  the source does not read it.
\<close>

definition initializeAgent_config ::
  "(string \<rightharpoonup> string) \<Rightarrow> string js_result option \<Rightarrow> agentkitConfig" where
  "initializeAgent_config env walletFile =
     (let walletDataStr = readWalletData walletFile in
      \<lparr>cdpWalletData = (if falsy walletDataStr then None else walletDataStr),
       networkId = ''base-sepolia''\<rparr>)"

text \<open>An environment with every required variable set and a network chosen.\<close>

definition mainnetEnv :: "string \<rightharpoonup> string" where
  "mainnetEnv = [''OPENAI_API_KEY'' \<mapsto> ''sk-test'', ''CDP_API_KEY_NAME'' \<mapsto> ''key-name'',
                 ''CDP_API_KEY_PRIVATE_KEY'' \<mapsto> ''key-secret'',
                 ''NETWORK_ID'' \<mapsto> ''base-mainnet'']"

section \<open>The interaction shell (adAgent.ts)\<close>

text \<open>
  \<^verbatim>\<open>String.prototype.trim\<close> removes white space and line terminators from both ends. Of
  the code points up to U+00FF these are tab, line feed, vertical tab, form feed, carriage
  return, space and the no-break space U+00A0. (The others that JavaScript removes, U+1680,
  U+2000 to U+200A, U+2028, U+2029, U+202F, U+205F, U+3000 and U+FEFF, lie above U+00FF.)
\<close>

definition isWhiteSpace :: "char \<Rightarrow> bool" where
  "isWhiteSpace c =
     (c \<in> set [CHR 0x09, CHR 0x0A, CHR 0x0B, CHR 0x0C, CHR 0x0D, CHR '' '', CHR 0xA0])"

definition trim :: "string \<Rightarrow> string" where
  "trim s = rev (dropWhile isWhiteSpace (rev (dropWhile isWhiteSpace s)))"

subsection \<open>The agent session as the shell sees it\<close>

text \<open>
  A chunk of the streamed response has an \<^verbatim>\<open>agent\<close> key, or else a \<^verbatim>\<open>tools\<close> key, or
  neither; the shell prints the content of the first message under that key. The agent is
  an external capability: given the messages it has received so far and a new message it
  streams chunks and then either ends the stream or throws. It records the text of every
  message submitted to it, in order.
\<close>

datatype chunk = AgentChunk string | ToolsChunk string | OtherChunk

record agentSession =
  respond :: "string list \<Rightarrow> string \<Rightarrow> chunk list \<times> js_thrown option"
  received :: "string list"

definition agent_stream ::
  "agentSession \<Rightarrow> string \<Rightarrow> (chunk list \<times> js_thrown option) \<times> agentSession" where
  "agent_stream agent text =
     (respond agent (received agent) text, agent\<lparr>received := received agent @ [text]\<rparr>)"

text \<open>The body of the \<^verbatim>\<open>for await\<close> loop: what is printed for one chunk.\<close>

definition printChunk :: "chunk \<Rightarrow> string list" where
  "printChunk c =
     (case c of
        AgentChunk content \<Rightarrow> [content, ''-------------------'']
      | ToolsChunk content \<Rightarrow> [content, ''-------------------'']
      | OtherChunk \<Rightarrow> [''-------------------''])"

subsection \<open>runChatMode\<close>

text \<open>
  How a run of the shell ends: the function returned, the process was ended with an exit
  status, or the input ran out while the shell was waiting for the next line.
\<close>

datatype shellOutcome = Returned | ProcessExit nat | AwaitingInput

record chatRun =
  stdoutWrites :: "string list"
  stderrWrites :: "string list"
  agentAfter :: agentSession
  outcome :: shellOutcome

text \<open>
  The \<^verbatim>\<open>while (true)\<close> loop over the lines typed by the user. Each turn writes the prompt;
  a line whose lower-case form is \<^verbatim>\<open>exit\<close> breaks the loop; any other line is handed to
  the agent as it is and the chunks are printed. A throw inside the loop is caught,
  reported when it is an Error, and ends the process with status 1.
\<close>

fun runChatLoop :: "agentSession \<Rightarrow> string list \<Rightarrow> string list \<Rightarrow> chatRun" where
  "runChatLoop agent [] out =
     \<lparr>stdoutWrites = out @ [CHR 0x0A # ''Prompt: ''], stderrWrites = [], agentAfter = agent,
      outcome = AwaitingInput\<rparr>"
| "runChatLoop agent (userInput # rest) out =
     (if toLowerCase userInput = ''exit''
      then \<lparr>stdoutWrites = out @ [CHR 0x0A # ''Prompt: ''], stderrWrites = [], agentAfter = agent,
            outcome = Returned\<rparr>
      else
        (case agent_stream agent userInput of
           ((chunks, thrown), agent') \<Rightarrow>
             (case thrown of
                Some error \<Rightarrow>
                  \<lparr>stdoutWrites = out @ [CHR 0x0A # ''Prompt: ''] @ concat (map printChunk chunks),
                   stderrWrites = (case error of JsError msg \<Rightarrow> [''Error: '' @ msg] | JsOther _ \<Rightarrow> []),
                   agentAfter = agent',
                   outcome = ProcessExit 1\<rparr>
              | None \<Rightarrow>
                  runChatLoop agent' rest
                    (out @ [CHR 0x0A # ''Prompt: ''] @ concat (map printChunk chunks)))))"

definition runChatMode :: "agentSession \<Rightarrow> string list \<Rightarrow> chatRun" where
  "runChatMode agent userInputs =
     runChatLoop agent userInputs
       [''Starting chat mode... Type '' @ [CHR 0x27] @ ''exit'' @ [CHR 0x27] @ '' to end.'']"


subsection \<open>chooseMode\<close>

datatype mode = Chat | Auto

record modeChoice =
  chosen :: "mode option"
  menuWrites :: "string list"
  unread :: "string list"

text \<open>
  The loop of chooseMode over the operator's answers: it prints the menu and the question,
  lower-cases and trims the answer, and returns on 1, chat, 2 or auto; otherwise it reports
  an invalid choice and asks again. \<open>chosen\<close> is \<open>None\<close> when the input runs out before
  a valid answer.
\<close>

fun chooseModeLoop :: "string list \<Rightarrow> string list \<Rightarrow> modeChoice" where
  "chooseModeLoop [] out =
     \<lparr>chosen = None,
      menuWrites = out @ [CHR 0x0A # ''Available modes:'', ''1. chat    - Interactive chat mode'',
                          ''2. auto    - Autonomous action mode'',
                          CHR 0x0A # ''Choose a mode (enter number or name): ''],
      unread = []\<rparr>"
| "chooseModeLoop (answer # rest) out =
     (let out' = out @ [CHR 0x0A # ''Available modes:'', ''1. chat    - Interactive chat mode'',
                        ''2. auto    - Autonomous action mode'',
                        CHR 0x0A # ''Choose a mode (enter number or name): ''];
          choice = trim (toLowerCase answer)
      in if choice = ''1'' \<or> choice = ''chat'' then \<lparr>chosen = Some Chat, menuWrites = out', unread = rest\<rparr>
         else if choice = ''2'' \<or> choice = ''auto'' then \<lparr>chosen = Some Auto, menuWrites = out', unread = rest\<rparr>
         else chooseModeLoop rest (out' @ [''Invalid choice. Please try again.'']))"

definition chooseMode :: "string list \<Rightarrow> modeChoice" where
  "chooseMode answers = chooseModeLoop answers []"

subsection \<open>An agent stub for the examples\<close>

text \<open>An agent that answers every message with one chunk echoing it, and has received nothing yet.\<close>

definition echoAgent :: agentSession where
  "echoAgent = \<lparr>respond = (\<lambda>history text. ([AgentChunk text], None)), received = []\<rparr>"

section \<open>The object-storage uploader (s3UploadTool.ts)\<close>

subsection \<open>Numbers in template literals\<close>

text \<open>
  What a template literal prints for an integer number (below \<open>10\<^sup>2\<^sup>1\<close> in absolute value,
  as every millisecond timestamp is): its decimal digits, with a minus sign when negative.
\<close>

definition digitChar :: "nat \<Rightarrow> char" where
  "digitChar d = ''0123456789'' ! d"

fun digits :: "nat \<Rightarrow> string" where
  "digits n = (if n < 10 then [digitChar n] else digits (n div 10) @ [digitChar (n mod 10)])"

declare digits.simps [simp del]

definition numberToString :: "int \<Rightarrow> string" where
  "numberToString i = (if i < 0 then CHR ''-'' # digits (nat (- i)) else digits (nat i))"

subsection \<open>The storage service and the readings of one call\<close>

type_synonym bytes = "char list"

record uploadParams =
  Bucket :: string
  Key :: string
  Body :: bytes
  ContentType :: string

text \<open>
  The storage client is an external capability: an upload either throws, and then nothing
  is written, or succeeds, and then the object is written. The service keeps the writes
  that succeeded, in order; a later write under the key of an earlier one replaces that
  object in the bucket.
\<close>

record s3Service =
  sdkUpload :: "uploadParams \<Rightarrow> js_thrown option"
  stored :: "uploadParams list"

definition s3_upload :: "s3Service \<Rightarrow> uploadParams \<Rightarrow> js_thrown option \<times> s3Service" where
  "s3_upload s3 params =
     (case sdkUpload s3 params of
        Some error \<Rightarrow> (Some error, s3)
      | None \<Rightarrow> (None, s3\<lparr>stored := stored s3 @ [params]\<rparr>))"

text \<open>
  What one call of the uploader reads from outside: the outcome of \<^verbatim>\<open>axios.get\<close> for a URL
  (the response body, or a throw: no connection, a status outside 2xx), the clock
  \<^verbatim>\<open>Date.now()\<close> in milliseconds, and the integer
  \<^verbatim>\<open>Math.floor(Math.random() * 10000)\<close>, which lies between 0 and 9999.
\<close>

record uploadReadings =
  axiosGet :: "string \<Rightarrow> bytes js_result"
  dateNow :: int
  randomSuffix :: nat

subsection \<open>uploadImageUrlToS3\<close>

text \<open>The object key \<^verbatim>\<open>`ad-images/${Date.now()}-${Math.floor(Math.random() * 10000)}.png`\<close>.\<close>

definition objectKey :: "int \<Rightarrow> nat \<Rightarrow> string" where
  "objectKey now rnd =
     ''ad-images/'' @ numberToString now @ ''-'' @ numberToString (int rnd) @ ''.png''"

text \<open>The error thrown by the \<^verbatim>\<open>catch\<close> clause of the uploader.\<close>

definition uploadFailed :: "js_thrown \<Rightarrow> js_thrown" where
  "uploadFailed error =
     JsError (''S3 upload failed: '' @ (case error of JsError msg \<Rightarrow> msg | JsOther _ \<Rightarrow> ''Unknown error''))"

definition uploadImageUrlToS3 ::
  "uploadReadings \<Rightarrow> s3Service \<Rightarrow> string \<Rightarrow> string js_result \<times> s3Service" where
  "uploadImageUrlToS3 readings s3 imageUrl =
     (case axiosGet readings imageUrl of
        Inl error \<Rightarrow> (Inl (uploadFailed error), s3)
      | Inr fileBuffer \<Rightarrow>
          (case s3_upload s3
                  \<lparr>Bucket = ''placeholderads'',
                   Key = objectKey (dateNow readings) (randomSuffix readings),
                   Body = fileBuffer, ContentType = ''image/png''\<rparr> of
             (Some error, s3') \<Rightarrow> (Inl (uploadFailed error), s3')
           | (None, s3') \<Rightarrow>
               (Inr (''https://placeholderads.s3.ap-south-1.amazonaws.com/''
                     @ objectKey (dateNow readings) (randomSuffix readings)),
                s3')))"

subsection \<open>Stubs for the examples\<close>

text \<open>
  A fetch that succeeds; a clock reading and a random draw; a storage service that accepts
  every upload and holds nothing yet.
\<close>

definition fetchOk :: "string \<Rightarrow> bytes js_result" where
  "fetchOk url = Inr ''PNG''"

definition exampleReadings :: uploadReadings where
  "exampleReadings = \<lparr>axiosGet = fetchOk, dateNow = 1700000000000, randomSuffix = 4242\<rparr>"

definition emptyS3 :: s3Service where
  "emptyS3 = \<lparr>sdkUpload = (\<lambda>params. None), stored = []\<rparr>"

section \<open>Properties of the contract invoker\<close>

text \<open>The lookup \<^verbatim>\<open>abi.find((func) => func.name === method)\<close> and membership of the name.\<close>

lemma find_method_absent:
  "\<forall>func \<in> set abi. name func \<noteq> method \<Longrightarrow> find (\<lambda>func. name func = method) abi = None"
  by (simp add: find_None_iff)

lemma find_method_present:
  "\<exists>func \<in> set abi. name func = method \<Longrightarrow> \<exists>methodAbi. find (\<lambda>func. name func = method) abi = Some methodAbi"
  by (cases "find (\<lambda>func. name func = method) abi") (auto simp: find_None_iff)

text \<open>
  Every path of the function, for the copy in adAgent.ts and for the copy in the publishAd
  program: it returns; a method that is not in the ABI gives the "not found" message; and a
  throw of the submission, of the wait for the receipt or of the hash getter gives the
  message of the catch clause for the thrown value.
\<close>

lemma invokeContract_paths:
  "(\<exists>s. fst (invokeContract wallet contractAddress method abi args) = Inr s) \<and>
   ((\<forall>func \<in> set abi. name func \<noteq> method) \<longrightarrow>
      fst (invokeContract wallet contractAddress method abi args)
        = Inr (''Failed to publish ad: Method '' @ method @ '' not found in ABI'')) \<and>
   ((\<exists>func \<in> set abi. name func = method) \<and>
    (sdkInvokeContract wallet
              \<lparr>req_contractAddress = contractAddress, req_method = method,
                req_args = args, req_abi = abi\<rparr> = Inl thrown \<or>
     (\<exists>invocation.
        sdkInvokeContract wallet
              \<lparr>req_contractAddress = contractAddress, req_method = method,
                req_args = args, req_abi = abi\<rparr> = Inr invocation \<and>
        (wait invocation = Inl thrown \<or>
         (\<exists>receipt. wait invocation = Inr receipt \<and> getTransactionHash receipt = Inl thrown)))) \<longrightarrow>
      fst (invokeContract wallet contractAddress method abi args)
        = Inr (case thrown of
                 JsError msg \<Rightarrow> ''Failed to publish ad: '' @ msg
               | JsOther v \<Rightarrow> ''Failed to publish ad due to an unknown error''))"
proof (intro conjI impI)
  show "\<exists>s. fst (invokeContract wallet contractAddress method abi args) = Inr s"
    by (simp add: invokeContract_def split: prod.split sum.split)
next
  assume "\<forall>func \<in> set abi. name func \<noteq> method"
  then have "find (\<lambda>func. name func = method) abi = None"
    by (rule find_method_absent)
  then show "fst (invokeContract wallet contractAddress method abi args)
        = Inr (''Failed to publish ad: Method '' @ method @ '' not found in ABI'')"
    by (simp add: invokeContract_def invokeContract_try_def invokeContract_catch_def)
next
  assume failure: "(\<exists>func \<in> set abi. name func = method) \<and>
    (sdkInvokeContract wallet
              \<lparr>req_contractAddress = contractAddress, req_method = method,
                req_args = args, req_abi = abi\<rparr> = Inl thrown \<or>
     (\<exists>invocation.
        sdkInvokeContract wallet
              \<lparr>req_contractAddress = contractAddress, req_method = method,
                req_args = args, req_abi = abi\<rparr> = Inr invocation \<and>
        (wait invocation = Inl thrown \<or>
         (\<exists>receipt. wait invocation = Inr receipt \<and> getTransactionHash receipt = Inl thrown))))"
  then obtain methodAbi where found: "find (\<lambda>func. name func = method) abi = Some methodAbi"
    using find_method_present by blast
  have "fst (invokeContract wallet contractAddress method abi args) = Inr (invokeContract_catch thrown)"
    using failure
    by (auto simp add: invokeContract_def invokeContract_try_def wallet_invokeContract_def found)
  then show "fst (invokeContract wallet contractAddress method abi args)
        = Inr (case thrown of
                 JsError msg \<Rightarrow> ''Failed to publish ad: '' @ msg
               | JsOther v \<Rightarrow> ''Failed to publish ad due to an unknown error'')"
    by (simp add: invokeContract_catch_def)
qed

lemma invokeContract_publishAd_paths:
  "(\<exists>s. fst (invokeContract_publishAd wallet contractAddress method abi args) = Inr s) \<and>
   ((\<forall>func \<in> set abi. name func \<noteq> method) \<longrightarrow>
      fst (invokeContract_publishAd wallet contractAddress method abi args)
        = Inr (''Failed to publish ad: Method '' @ method @ '' not found in ABI'')) \<and>
   ((\<exists>func \<in> set abi. name func = method) \<and>
    (sdkInvokeContract wallet
              \<lparr>req_contractAddress = contractAddress, req_method = method,
                req_args = args, req_abi = abi\<rparr> = Inl thrown \<or>
     (\<exists>invocation.
        sdkInvokeContract wallet
              \<lparr>req_contractAddress = contractAddress, req_method = method,
                req_args = args, req_abi = abi\<rparr> = Inr invocation \<and>
        (wait invocation = Inl thrown \<or>
         (\<exists>receipt. wait invocation = Inr receipt \<and> getTransactionHash receipt = Inl thrown)))) \<longrightarrow>
      fst (invokeContract_publishAd wallet contractAddress method abi args)
        = Inr (case thrown of
                 JsError msg \<Rightarrow> ''Failed to publish ad: '' @ msg
               | JsOther v \<Rightarrow> ''Failed to publish ad due to an unknown error''))"
proof (intro conjI impI)
  show "\<exists>s. fst (invokeContract_publishAd wallet contractAddress method abi args) = Inr s"
    by (simp add: invokeContract_publishAd_def split: prod.split sum.split)
next
  assume "\<forall>func \<in> set abi. name func \<noteq> method"
  then have "find (\<lambda>func. name func = method) abi = None"
    by (rule find_method_absent)
  then show "fst (invokeContract_publishAd wallet contractAddress method abi args)
        = Inr (''Failed to publish ad: Method '' @ method @ '' not found in ABI'')"
    by (simp add: invokeContract_publishAd_def invokeContract_try_publishAd_def invokeContract_catch_def)
next
  assume failure: "(\<exists>func \<in> set abi. name func = method) \<and>
    (sdkInvokeContract wallet
              \<lparr>req_contractAddress = contractAddress, req_method = method,
                req_args = args, req_abi = abi\<rparr> = Inl thrown \<or>
     (\<exists>invocation.
        sdkInvokeContract wallet
              \<lparr>req_contractAddress = contractAddress, req_method = method,
                req_args = args, req_abi = abi\<rparr> = Inr invocation \<and>
        (wait invocation = Inl thrown \<or>
         (\<exists>receipt. wait invocation = Inr receipt \<and> getTransactionHash receipt = Inl thrown))))"
  then obtain methodAbi where found: "find (\<lambda>func. name func = method) abi = Some methodAbi"
    using find_method_present by blast
  have "fst (invokeContract_publishAd wallet contractAddress method abi args) = Inr (invokeContract_catch thrown)"
    using failure
    by (auto simp add: invokeContract_publishAd_def invokeContract_try_publishAd_def wallet_invokeContract_def found)
  then show "fst (invokeContract_publishAd wallet contractAddress method abi args)
        = Inr (case thrown of
                 JsError msg \<Rightarrow> ''Failed to publish ad: '' @ msg
               | JsOther v \<Rightarrow> ''Failed to publish ad due to an unknown error'')"
    by (simp add: invokeContract_catch_def)
qed

text \<open>
  Claim C1. For every wallet, contract address, method name, ABI list and argument map,
  invokeContract returns a string and no thrown value leaves it. Every failure path ends
  in a string that describes the failure: a method name that is not in the ABI gives
  "Failed to publish ad: Method <name> not found in ABI"; a throw of the submission, of the
  wait for the receipt or of the hash getter gives "Failed to publish ad: <message>" when
  the thrown value is an Error and "Failed to publish ad due to an unknown error" when it
  is not. Both copies of the function behave so.
\<close>

theorem invokeContract_never_throws:
  "(\<exists>s. fst (invokeContract wallet contractAddress method abi args) = Inr s) \<and>
   ((\<forall>func \<in> set abi. name func \<noteq> method) \<longrightarrow>
      fst (invokeContract wallet contractAddress method abi args)
        = Inr (''Failed to publish ad: Method '' @ method @ '' not found in ABI'')) \<and>
   ((\<exists>func \<in> set abi. name func = method) \<and>
    (sdkInvokeContract wallet
              \<lparr>req_contractAddress = contractAddress, req_method = method,
                req_args = args, req_abi = abi\<rparr> = Inl thrown \<or>
     (\<exists>invocation.
        sdkInvokeContract wallet
              \<lparr>req_contractAddress = contractAddress, req_method = method,
                req_args = args, req_abi = abi\<rparr> = Inr invocation \<and>
        (wait invocation = Inl thrown \<or>
         (\<exists>receipt. wait invocation = Inr receipt \<and> getTransactionHash receipt = Inl thrown)))) \<longrightarrow>
      fst (invokeContract wallet contractAddress method abi args)
        = Inr (case thrown of
                 JsError msg \<Rightarrow> ''Failed to publish ad: '' @ msg
               | JsOther v \<Rightarrow> ''Failed to publish ad due to an unknown error'')) \<and>
   (\<exists>s. fst (invokeContract_publishAd wallet contractAddress method abi args) = Inr s) \<and>
   ((\<forall>func \<in> set abi. name func \<noteq> method) \<longrightarrow>
      fst (invokeContract_publishAd wallet contractAddress method abi args)
        = Inr (''Failed to publish ad: Method '' @ method @ '' not found in ABI'')) \<and>
   ((\<exists>func \<in> set abi. name func = method) \<and>
    (sdkInvokeContract wallet
              \<lparr>req_contractAddress = contractAddress, req_method = method,
                req_args = args, req_abi = abi\<rparr> = Inl thrown \<or>
     (\<exists>invocation.
        sdkInvokeContract wallet
              \<lparr>req_contractAddress = contractAddress, req_method = method,
                req_args = args, req_abi = abi\<rparr> = Inr invocation \<and>
        (wait invocation = Inl thrown \<or>
         (\<exists>receipt. wait invocation = Inr receipt \<and> getTransactionHash receipt = Inl thrown)))) \<longrightarrow>
      fst (invokeContract_publishAd wallet contractAddress method abi args)
        = Inr (case thrown of
                 JsError msg \<Rightarrow> ''Failed to publish ad: '' @ msg
               | JsOther v \<Rightarrow> ''Failed to publish ad due to an unknown error''))"
  using invokeContract_paths [of wallet contractAddress "method" abi args thrown]
    invokeContract_publishAd_paths [of wallet contractAddress "method" abi args thrown]
  by (intro conjI) blast+

text \<open>
  A method that is not in the ABI, a wait that throws an Error, and a submission that
  throws a value that is not an Error.
\<close>

theorem invokeContract_never_throws_witness:
  "fst (invokeContract (receiptWallet (Some ''0xdead'')) AD_CONTRACT_ADDRESS ''deleteAd''
          AD_CONTRACT_ABI exampleArgs)
     = Inr ''Failed to publish ad: Method deleteAd not found in ABI'' \<and>
   fst (invokeContract (waitThrowsWallet (JsError ''execution reverted'')) AD_CONTRACT_ADDRESS
          ''createAd'' AD_CONTRACT_ABI exampleArgs)
     = Inr ''Failed to publish ad: execution reverted'' \<and>
   fst (invokeContract_publishAd (submitThrowsWallet (JsOther ''ECONNRESET'')) AD_CONTRACT_ADDRESS
          ''createAd'' AD_CONTRACT_ABI exampleArgs)
     = Inr ''Failed to publish ad due to an unknown error''"
proof -
  have absent: "\<forall>func \<in> set AD_CONTRACT_ABI. name func \<noteq> ''deleteAd''"
    and present: "\<exists>func \<in> set AD_CONTRACT_ABI. name func = ''createAd''"
    by (simp_all add: AD_CONTRACT_ABI_def)
  have waits: "sdkInvokeContract (waitThrowsWallet (JsError ''execution reverted''))
                  \<lparr>req_contractAddress = AD_CONTRACT_ADDRESS, req_method = ''createAd'',
                    req_args = exampleArgs, req_abi = AD_CONTRACT_ABI\<rparr>
                = Inr \<lparr>wait = Inl (JsError ''execution reverted'')\<rparr>"
    by (simp add: waitThrowsWallet_def)
  have submits: "sdkInvokeContract (submitThrowsWallet (JsOther ''ECONNRESET''))
                  \<lparr>req_contractAddress = AD_CONTRACT_ADDRESS, req_method = ''createAd'',
                    req_args = exampleArgs, req_abi = AD_CONTRACT_ABI\<rparr>
                = Inl (JsOther ''ECONNRESET'')"
    by (simp add: submitThrowsWallet_def)
  show ?thesis
    using invokeContract_never_throws [of "receiptWallet (Some ''0xdead'')" AD_CONTRACT_ADDRESS
        "''deleteAd''" AD_CONTRACT_ABI exampleArgs "JsOther ''unused''"]
      invokeContract_never_throws [of "waitThrowsWallet (JsError ''execution reverted'')"
        AD_CONTRACT_ADDRESS "''createAd''" AD_CONTRACT_ABI exampleArgs "JsError ''execution reverted''"]
      invokeContract_never_throws [of "submitThrowsWallet (JsOther ''ECONNRESET'')"
        AD_CONTRACT_ADDRESS "''createAd''" AD_CONTRACT_ABI exampleArgs "JsOther ''ECONNRESET''"]
      absent present
    by (simp add: waits submits)
qed

text \<open>
  Claim C2. When no entry of the ABI list has the method name, invokeContract returns the
  failure string "Failed to publish ad: Method <name> not found in ABI", which contains
  "not found", and the wallet's record of submissions is what it was before the call: the
  submission operation is never called. Both copies of the function behave so.
\<close>

theorem invokeContract_method_not_found:
  assumes "\<forall>func \<in> set abi. name func \<noteq> method"
  shows "fst (invokeContract wallet contractAddress method abi args)
           = Inr (''Failed to publish ad: Method '' @ method @ '' not found in ABI'') \<and>
         sublist ''not found'' (''Failed to publish ad: Method '' @ method @ '' not found in ABI'') \<and>
         submitted (snd (invokeContract wallet contractAddress method abi args)) = submitted wallet \<and>
         fst (invokeContract_publishAd wallet contractAddress method abi args)
           = Inr (''Failed to publish ad: Method '' @ method @ '' not found in ABI'') \<and>
         submitted (snd (invokeContract_publishAd wallet contractAddress method abi args)) = submitted wallet"
proof -
  have absent: "find (\<lambda>func. name func = method) abi = None"
    using assms by (rule find_method_absent)
  have "''Failed to publish ad: Method '' @ method @ '' not found in ABI''
          = (''Failed to publish ad: Method '' @ method @ '' '') @ ''not found'' @ '' in ABI''"
    by simp
  then have contains: "sublist ''not found'' (''Failed to publish ad: Method '' @ method @ '' not found in ABI'')"
    by (metis sublist_appendI)
  show ?thesis
    using contains
    by (simp add: invokeContract_def invokeContract_try_def invokeContract_publishAd_def
        invokeContract_try_publishAd_def invokeContract_catch_def absent)
qed

text \<open>
  The ABI of the repository has the single method createAd; asking for publishAd fails
  before any submission.
\<close>

theorem invokeContract_method_not_found_witness:
  "fst (invokeContract (receiptWallet (Some ''0xdead'')) AD_CONTRACT_ADDRESS ''publishAd'' AD_CONTRACT_ABI
          [''to'' \<mapsto> ''0xabc...''])
     = Inr ''Failed to publish ad: Method publishAd not found in ABI'' \<and>
   submitted (snd (invokeContract (receiptWallet (Some ''0xdead'')) AD_CONTRACT_ADDRESS ''publishAd''
          AD_CONTRACT_ABI [''to'' \<mapsto> ''0xabc...''])) = []"
proof -
  have h: "\<forall>func \<in> set AD_CONTRACT_ABI. name func \<noteq> ''publishAd''"
    by (simp add: AD_CONTRACT_ABI_def)
  show ?thesis
    using invokeContract_method_not_found [OF h, of "receiptWallet (Some ''0xdead'')" AD_CONTRACT_ADDRESS
        "[''to'' \<mapsto> ''0xabc...'']"]
    by (simp add: receiptWallet_def)
qed

text \<open>
  Claim C3. When the method name is in the ABI and the submission is confirmed with a
  receipt carrying a non-empty transaction hash, invokeContract returns a success string
  that contains the hash, the transaction-explorer URL
  https://sepolia.basescan.org/tx/<hash>, and the recipient \<^verbatim>\<open>args.to\<close> as the template
  prints it.
\<close>

theorem invokeContract_success:
  assumes present: "\<exists>func \<in> set abi. name func = method"
    and submit: "sdkInvokeContract wallet
                   \<lparr>req_contractAddress = contractAddress, req_method = method,
                     req_args = args, req_abi = abi\<rparr> = Inr invocation"
    and confirmed: "wait invocation = Inr receipt"
    and hash: "getTransactionHash receipt = Inr (Some txHash)"
    and nonempty: "txHash \<noteq> []"
  shows "\<exists>s. fst (invokeContract wallet contractAddress method abi args) = Inr s \<and>
             prefix ''Ad Created successfully'' s \<and>
             sublist txHash s \<and>
             sublist (''https://sepolia.basescan.org/tx/'' @ txHash) s \<and>
             sublist (templateString (args ''to'')) s"
proof -
  obtain methodAbi where found: "find (\<lambda>func. name func = method) abi = Some methodAbi"
    using find_method_present [OF present] by blast
  define s where "s = ''Ad Created successfully. Transaction hash: https://sepolia.basescan.org/tx/''
                      @ txHash @ '' '' @ [CHR 0x0A] @ '' https://testnets.opensea.io/''
                      @ templateString (args ''to'')"
  have result: "fst (invokeContract wallet contractAddress method abi args) = Inr s"
    using nonempty
    by (simp add: invokeContract_def invokeContract_try_def wallet_invokeContract_def found submit
        confirmed hash falsy_def templateString_def s_def)
  have p: "prefix ''Ad Created successfully'' s"
    by (simp add: s_def)
  have "s = ''Ad Created successfully. Transaction hash: '' @ (''https://sepolia.basescan.org/tx/'' @ txHash)
              @ ('' '' @ [CHR 0x0A] @ '' https://testnets.opensea.io/'' @ templateString (args ''to''))"
    by (simp add: s_def)
  then have url: "sublist (''https://sepolia.basescan.org/tx/'' @ txHash) s"
    by (metis sublist_appendI)
  have "s = (''Ad Created successfully. Transaction hash: https://sepolia.basescan.org/tx/'') @ txHash
              @ ('' '' @ [CHR 0x0A] @ '' https://testnets.opensea.io/'' @ templateString (args ''to''))"
    by (simp add: s_def)
  then have h: "sublist txHash s"
    by (metis sublist_appendI)
  have "s = (''Ad Created successfully. Transaction hash: https://sepolia.basescan.org/tx/'' @ txHash
              @ '' '' @ [CHR 0x0A] @ '' https://testnets.opensea.io/'') @ templateString (args ''to'')"
    by (simp add: s_def)
  then have t: "sublist (templateString (args ''to'')) s"
    by (metis sublist_append_leftI)
  show ?thesis
    using result p url h t by blast
qed

text \<open>
  The example of the spec: method createAd, arguments with to = "0xabc...", and a wallet
  stub whose receipt has the hash "0xdead"; the result contains both.
\<close>

theorem invokeContract_success_witness:
  "\<exists>s. fst (invokeContract (receiptWallet (Some ''0xdead'')) AD_CONTRACT_ADDRESS ''createAd''
             AD_CONTRACT_ABI exampleArgs) = Inr s \<and>
       sublist ''0xdead'' s \<and> sublist ''https://sepolia.basescan.org/tx/0xdead'' s \<and>
       sublist ''0xabc...'' s"
proof -
  have present: "\<exists>func \<in> set AD_CONTRACT_ABI. name func = ''createAd''"
    by (simp add: AD_CONTRACT_ABI_def)
  have submit: "sdkInvokeContract (receiptWallet (Some ''0xdead''))
                  \<lparr>req_contractAddress = AD_CONTRACT_ADDRESS, req_method = ''createAd'',
                    req_args = exampleArgs, req_abi = AD_CONTRACT_ABI\<rparr>
                = Inr \<lparr>wait = Inr \<lparr>getTransactionHash = Inr (Some ''0xdead'')\<rparr>\<rparr>"
    by (simp add: receiptWallet_def)
  have to: "templateString (exampleArgs ''to'') = ''0xabc...''"
    by (simp add: exampleArgs_def templateString_def)
  show ?thesis
    using invokeContract_success [OF present submit, of "\<lparr>getTransactionHash = Inr (Some ''0xdead'')\<rparr>" "''0xdead''"]
    by (auto simp add: to)
qed

text \<open>
  Claim C5. When the method is in the ABI and the submission throws, or the submission
  succeeds and the wait for the receipt throws, invokeContract returns
  "Failed to publish ad: <message>" (which contains the message) if the thrown value is an
  Error, and the fixed string "Failed to publish ad due to an unknown error" if it is not.
\<close>

theorem invokeContract_failure_message:
  assumes present: "\<exists>func \<in> set abi. name func = method"
    and throws:
      "sdkInvokeContract wallet
          \<lparr>req_contractAddress = contractAddress, req_method = method,
            req_args = args, req_abi = abi\<rparr> = Inl thrown
       \<or> (\<exists>invocation.
            sdkInvokeContract wallet
              \<lparr>req_contractAddress = contractAddress, req_method = method,
                req_args = args, req_abi = abi\<rparr> = Inr invocation \<and>
            wait invocation = Inl thrown)"
  shows "case thrown of
           JsError msg \<Rightarrow>
             fst (invokeContract wallet contractAddress method abi args)
               = Inr (''Failed to publish ad: '' @ msg) \<and>
             sublist msg (''Failed to publish ad: '' @ msg)
         | JsOther v \<Rightarrow>
             fst (invokeContract wallet contractAddress method abi args)
               = Inr ''Failed to publish ad due to an unknown error''"
proof -
  obtain methodAbi where found: "find (\<lambda>func. name func = method) abi = Some methodAbi"
    using find_method_present [OF present] by blast
  have "fst (invokeContract wallet contractAddress method abi args) = Inr (invokeContract_catch thrown)"
    using throws
    by (auto simp add: invokeContract_def invokeContract_try_def wallet_invokeContract_def found)
  moreover have "sublist msg (''Failed to publish ad: '' @ msg)" for msg :: string
    by (rule sublist_append_leftI)
  ultimately show ?thesis
    by (cases thrown) (simp_all add: invokeContract_catch_def)
qed

text \<open>
  A submission that throws an Error with the message "insufficient funds", and a wait that
  throws a value that is not an Error.
\<close>

theorem invokeContract_failure_message_witness:
  "fst (invokeContract (submitThrowsWallet (JsError ''insufficient funds'')) AD_CONTRACT_ADDRESS
          ''createAd'' AD_CONTRACT_ABI exampleArgs)
     = Inr ''Failed to publish ad: insufficient funds'' \<and>
   fst (invokeContract (waitThrowsWallet (JsOther ''timeout'')) AD_CONTRACT_ADDRESS
          ''createAd'' AD_CONTRACT_ABI exampleArgs)
     = Inr ''Failed to publish ad due to an unknown error''"
proof -
  have present: "\<exists>func \<in> set AD_CONTRACT_ABI. name func = ''createAd''"
    by (simp add: AD_CONTRACT_ABI_def)
  have a: "sdkInvokeContract (submitThrowsWallet (JsError ''insufficient funds''))
          \<lparr>req_contractAddress = AD_CONTRACT_ADDRESS, req_method = ''createAd'',
            req_args = exampleArgs, req_abi = AD_CONTRACT_ABI\<rparr> = Inl (JsError ''insufficient funds'')
       \<or> (\<exists>invocation.
            sdkInvokeContract (submitThrowsWallet (JsError ''insufficient funds''))
              \<lparr>req_contractAddress = AD_CONTRACT_ADDRESS, req_method = ''createAd'',
                req_args = exampleArgs, req_abi = AD_CONTRACT_ABI\<rparr> = Inr invocation \<and>
            wait invocation = Inl (JsError ''insufficient funds''))"
    by (simp add: submitThrowsWallet_def)
  have b: "sdkInvokeContract (waitThrowsWallet (JsOther ''timeout''))
          \<lparr>req_contractAddress = AD_CONTRACT_ADDRESS, req_method = ''createAd'',
            req_args = exampleArgs, req_abi = AD_CONTRACT_ABI\<rparr> = Inl (JsOther ''timeout'')
       \<or> (\<exists>invocation.
            sdkInvokeContract (waitThrowsWallet (JsOther ''timeout''))
              \<lparr>req_contractAddress = AD_CONTRACT_ADDRESS, req_method = ''createAd'',
                req_args = exampleArgs, req_abi = AD_CONTRACT_ABI\<rparr> = Inr invocation \<and>
            wait invocation = Inl (JsOther ''timeout''))"
    by (simp add: waitThrowsWallet_def)
  show ?thesis
    using invokeContract_failure_message [OF present a] invokeContract_failure_message [OF present b]
    by simp
qed

text \<open>
  Claim C6. When the method is in the ABI, the submission succeeds and the receipt yields no
  transaction hash (\<^verbatim>\<open>undefined\<close> or the empty string), invokeContract returns the
  message "Contract invocation completed, but transaction hash is not available". That
  message is returned, not thrown; it is none of the strings the catch clause produces, and
  it starts neither like a failure message nor like the success message.
\<close>

theorem invokeContract_hash_unavailable:
  assumes present: "\<exists>func \<in> set abi. name func = method"
    and submit: "sdkInvokeContract wallet
                   \<lparr>req_contractAddress = contractAddress, req_method = method,
                     req_args = args, req_abi = abi\<rparr> = Inr invocation"
    and confirmed: "wait invocation = Inr receipt"
    and hash: "getTransactionHash receipt = Inr txHash"
    and absent: "falsy txHash"
  shows "fst (invokeContract wallet contractAddress method abi args)
           = Inr ''Contract invocation completed, but transaction hash is not available'' \<and>
         (\<forall>thrown. invokeContract_catch thrown
            \<noteq> ''Contract invocation completed, but transaction hash is not available'') \<and>
         \<not> prefix ''Failed to publish ad''
              ''Contract invocation completed, but transaction hash is not available'' \<and>
         \<not> prefix ''Ad Created successfully''
              ''Contract invocation completed, but transaction hash is not available''"
proof -
  obtain methodAbi where found: "find (\<lambda>func. name func = method) abi = Some methodAbi"
    using find_method_present [OF present] by blast
  have result: "fst (invokeContract wallet contractAddress method abi args)
           = Inr ''Contract invocation completed, but transaction hash is not available''"
    using absent
    by (simp add: invokeContract_def invokeContract_try_def wallet_invokeContract_def found submit
        confirmed hash)
  have distinct: "invokeContract_catch thrown
            \<noteq> ''Contract invocation completed, but transaction hash is not available''" for thrown
    by (cases thrown) (simp_all add: invokeContract_catch_def)
  show ?thesis
    using result distinct by simp
qed

text \<open>A receipt without a hash, and one whose hash is the empty string.\<close>

theorem invokeContract_hash_unavailable_witness:
  "fst (invokeContract (receiptWallet None) AD_CONTRACT_ADDRESS ''createAd'' AD_CONTRACT_ABI exampleArgs)
     = Inr ''Contract invocation completed, but transaction hash is not available'' \<and>
   fst (invokeContract (receiptWallet (Some '''')) AD_CONTRACT_ADDRESS ''createAd'' AD_CONTRACT_ABI exampleArgs)
     = Inr ''Contract invocation completed, but transaction hash is not available''"
proof -
  have present: "\<exists>func \<in> set AD_CONTRACT_ABI. name func = ''createAd''"
    by (simp add: AD_CONTRACT_ABI_def)
  have submit: "sdkInvokeContract (receiptWallet h)
                  \<lparr>req_contractAddress = AD_CONTRACT_ADDRESS, req_method = ''createAd'',
                    req_args = exampleArgs, req_abi = AD_CONTRACT_ABI\<rparr>
                = Inr \<lparr>wait = Inr \<lparr>getTransactionHash = Inr h\<rparr>\<rparr>" for h
    by (simp add: receiptWallet_def)
  have f1: "falsy None" and f2: "falsy (Some '''')"
    by (simp_all add: falsy_def)
  have confirmed: "wait \<lparr>wait = Inr \<lparr>getTransactionHash = Inr h\<rparr>\<rparr> = Inr \<lparr>getTransactionHash = Inr h\<rparr>"
    and hash: "getTransactionHash \<lparr>getTransactionHash = Inr h\<rparr> = Inr h" for h :: "string option"
    by simp_all
  show ?thesis
    using invokeContract_hash_unavailable [OF present submit confirmed hash f1]
      invokeContract_hash_unavailable [OF present submit confirmed hash f2]
    by simp
qed

section \<open>Properties of the startup validation\<close>










section \<open>The network identifier\<close>

text \<open>
  Claim C9. With NETWORK_ID absent the configuration names base-sepolia, as the claim says.
  With NETWORK_ID set to base-mainnet (and every required variable set) the startup
  validation prints nothing and does not exit, and the configuration still names
  base-sepolia: the variable does not determine the network.
\<close>

theorem initializeAgent_config_ignores_NETWORK_ID:
  "networkId (initializeAgent_config (mainnetEnv(''NETWORK_ID'' := None)) walletFile) = ''base-sepolia'' \<and>
   mainnetEnv ''NETWORK_ID'' = Some ''base-mainnet'' \<and>
   validateEnvironment mainnetEnv = \<lparr>errorLines = [], warnLines = [], exitCode = None\<rparr> \<and>
   networkId (initializeAgent_config mainnetEnv walletFile) = ''base-sepolia'' \<and>
   networkId (initializeAgent_config mainnetEnv walletFile) \<noteq> ''base-mainnet''"
  by (simp add: initializeAgent_config_def mainnetEnv_def validateEnvironment_def requiredVars_def
      falsy_def Let_def)

section \<open>Properties of the interaction shell\<close>



lemma length_toLowerCase: "length (toLowerCase s) = length s"
  by (simp add: toLowerCase_def)

text \<open>The loop only ever appends to what the agent has received.\<close>

lemma received_grows:
  "prefix (received agent) (received (agentAfter (runChatLoop agent userInputs out)))"
proof (induction userInputs arbitrary: agent out)
  case Nil
  show ?case by simp
next
  case (Cons userInput rest)
  have step: "prefix (received agent)
                (received (agentAfter (runChatLoop (agent\<lparr>received := received agent @ [userInput]\<rparr>) rest out')))"
    for out'
    using Cons.IH [of "agent\<lparr>received := received agent @ [userInput]\<rparr>" out']
    by (auto dest: append_prefixD)
  show ?case
    using step
    by (auto simp add: agent_stream_def split: prod.split option.split)
qed

lemma forwarded_verbatim:
  assumes "toLowerCase userInput \<noteq> ''exit''"
  shows "prefix (received agent @ [userInput])
           (received (agentAfter (runChatLoop agent (userInput # rest) out)))"
  using assms received_grows [of "agent\<lparr>received := received agent @ [userInput]\<rparr>" rest]
  by (auto simp add: agent_stream_def split: prod.split option.split)



text \<open>White space is untouched by toLowerCase, and trim removes it at both ends.\<close>

lemma toLowerCaseChar_whitespace:
  assumes "isWhiteSpace c"
  shows "toLowerCaseChar c = c"
proof -
  have "\<forall>c \<in> set [CHR 0x09, CHR 0x0A, CHR 0x0B, CHR 0x0C, CHR 0x0D, CHR '' '', CHR 0xA0].
          toLowerCaseChar c = c"
    by (simp add: toLowerCaseChar_def upperCaseLetters_def lowerCaseLetters_def)
  then show ?thesis
    using assms unfolding isWhiteSpace_def by blast
qed

lemma toLowerCase_whitespace: "\<forall>c \<in> set s. isWhiteSpace c \<Longrightarrow> toLowerCase s = s"
  unfolding toLowerCase_def by (rule map_idI) (simp add: toLowerCaseChar_whitespace)

lemma toLowerCase_append: "toLowerCase (s @ t) = toLowerCase s @ toLowerCase t"
  by (simp add: toLowerCase_def)

lemma trim_padded:
  assumes before: "\<forall>c \<in> set before. isWhiteSpace c"
    and after: "\<forall>c \<in> set after. isWhiteSpace c"
    and word: "word \<noteq> []" "\<not> isWhiteSpace (hd word)" "\<not> isWhiteSpace (last word)"
  shows "trim (before @ word @ after) = word"
proof -
  have "dropWhile isWhiteSpace (before @ word @ after) = dropWhile isWhiteSpace (word @ after)"
    using before by (simp add: dropWhile_append2)
  also have "\<dots> = word @ after"
    using word by (cases word) simp_all
  finally have front: "dropWhile isWhiteSpace (before @ word @ after) = word @ after" .
  have "dropWhile isWhiteSpace (rev after @ rev word) = dropWhile isWhiteSpace (rev word)"
    by (rule dropWhile_append2) (use after in simp)
  also have "\<dots> = rev word"
    using word by (simp add: dropWhile_eq_self_iff hd_rev)
  finally show ?thesis
    by (simp add: trim_def front)
qed

lemma trim_toLowerCase_padded:
  assumes before: "\<forall>c \<in> set before. isWhiteSpace c"
    and after: "\<forall>c \<in> set after. isWhiteSpace c"
    and word: "toLowerCase answer = word" "word \<noteq> []" "\<not> isWhiteSpace (hd word)"
      "\<not> isWhiteSpace (last word)"
  shows "trim (toLowerCase (before @ answer @ after)) = word"
  using trim_padded [OF before after word(2-4)] word(1)
  by (simp add: toLowerCase_append toLowerCase_whitespace before after)

text \<open>A line with white space around a spelling of "exit" fails the exit test; the loop then goes on.\<close>

lemma padded_not_exit:
  assumes padded: "before @ after \<noteq> []" and exitWord: "toLowerCase word = ''exit''"
  shows "toLowerCase (before @ word @ after) \<noteq> ''exit''"
proof
  assume "toLowerCase (before @ word @ after) = ''exit''"
  then have "length (toLowerCase (before @ word @ after)) = length ''exit''"
    by (rule arg_cong)
  moreover have "length (toLowerCase word) = length ''exit''"
    using exitWord by (rule arg_cong)
  ultimately have "length before + length after = 0"
    by (simp add: length_toLowerCase)
  then show False
    using padded by simp
qed

lemma chat_goes_on:
  assumes "toLowerCase userInput \<noteq> ''exit''"
    and "snd (respond agent (received agent) userInput) = None"
  shows "runChatLoop agent (userInput # rest) out
           = runChatLoop (agent\<lparr>received := received agent @ [userInput]\<rparr>) rest
               (out @ [CHR 0x0A # ''Prompt: '']
                  @ concat (map printChunk (fst (respond agent (received agent) userInput))))"
  using assms by (cases "respond agent (received agent) userInput") (simp add: agent_stream_def)

text \<open>
  Claim C10. The exit test of the chat loop lower-cases the line and does not trim it; the
  mode chooser lower-cases and trims. So a line made of a spelling of "exit" with anything
  before or after it (white space in particular, at least one character of it) is not taken
  as exit: it is forwarded to the agent as typed, and when the agent's answer ends without
  a throw the loop goes on with the next line. An answer to the mode question that spells
  chat or 1 (auto or 2) with white space around it selects chat (auto) mode; white space is
  every character that trim removes, the no-break space included.
\<close>

theorem exit_untrimmed_mode_choice_trimmed:
  assumes padded: "before @ after \<noteq> []"
    and exitWord: "toLowerCase word = ''exit''"
    and pad': "\<forall>c \<in> set (before' @ after'). isWhiteSpace c"
  shows "toLowerCase (before @ word @ after) \<noteq> ''exit'' \<and>
         prefix (received agent @ [before @ word @ after])
           (received (agentAfter (runChatLoop agent ((before @ word @ after) # rest) out))) \<and>
         (snd (respond agent (received agent) (before @ word @ after)) = None \<longrightarrow>
            runChatLoop agent ((before @ word @ after) # rest) out
              = runChatLoop (agent\<lparr>received := received agent @ [before @ word @ after]\<rparr>) rest
                  (out @ [CHR 0x0A # ''Prompt: '']
                     @ concat (map printChunk
                         (fst (respond agent (received agent) (before @ word @ after)))))) \<and>
         (toLowerCase answer = ''chat'' \<or> toLowerCase answer = ''1'' \<longrightarrow>
            chosen (chooseMode ((before' @ answer @ after') # answers)) = Some Chat) \<and>
         (toLowerCase answer = ''auto'' \<or> toLowerCase answer = ''2'' \<longrightarrow>
            chosen (chooseMode ((before' @ answer @ after') # answers)) = Some Auto)"
proof -
  have ne: "toLowerCase (before @ word @ after) \<noteq> ''exit''"
    using padded exitWord by (rule padded_not_exit)
  have fwd: "prefix (received agent @ [before @ word @ after])
           (received (agentAfter (runChatLoop agent ((before @ word @ after) # rest) out)))"
    using ne by (rule forwarded_verbatim)
  have goes_on: "snd (respond agent (received agent) (before @ word @ after)) = None \<longrightarrow>
            runChatLoop agent ((before @ word @ after) # rest) out
              = runChatLoop (agent\<lparr>received := received agent @ [before @ word @ after]\<rparr>) rest
                  (out @ [CHR 0x0A # ''Prompt: '']
                     @ concat (map printChunk
                         (fst (respond agent (received agent) (before @ word @ after)))))"
    using chat_goes_on [OF ne] by blast
  have b: "\<forall>c \<in> set before'. isWhiteSpace c" and a: "\<forall>c \<in> set after'. isWhiteSpace c"
    using pad' by simp_all
  have choice:
    "toLowerCase answer = ''chat'' \<Longrightarrow> trim (toLowerCase (before' @ answer @ after')) = ''chat''"
    "toLowerCase answer = ''1'' \<Longrightarrow> trim (toLowerCase (before' @ answer @ after')) = ''1''"
    "toLowerCase answer = ''auto'' \<Longrightarrow> trim (toLowerCase (before' @ answer @ after')) = ''auto''"
    "toLowerCase answer = ''2'' \<Longrightarrow> trim (toLowerCase (before' @ answer @ after')) = ''2''"
    by (rule trim_toLowerCase_padded [OF b a]; simp add: isWhiteSpace_def)+
  have chat: "toLowerCase answer = ''chat'' \<or> toLowerCase answer = ''1'' \<longrightarrow>
            chosen (chooseMode ((before' @ answer @ after') # answers)) = Some Chat"
    using choice(1,2) by (auto simp add: chooseMode_def Let_def)
  have auto: "toLowerCase answer = ''auto'' \<or> toLowerCase answer = ''2'' \<longrightarrow>
            chosen (chooseMode ((before' @ answer @ after') # answers)) = Some Auto"
    using choice(3,4) by (auto simp add: chooseMode_def Let_def)
  show ?thesis
    using ne fwd goes_on chat auto by (intro conjI)
qed

text \<open>
  The examples of the claim: "exit " is forwarded, " CHAT " selects chat mode; so does
  "chat" after a no-break space and before a tab.
\<close>

theorem exit_untrimmed_mode_choice_trimmed_witness:
  "toLowerCase ''exit '' \<noteq> ''exit'' \<and>
   outcome (runChatLoop echoAgent [''exit ''] []) = AwaitingInput \<and>
   received (agentAfter (runChatLoop echoAgent [''exit ''] [])) = [''exit ''] \<and>
   chosen (chooseMode ['' CHAT '']) = Some Chat \<and>
   chosen (chooseMode [CHR 0xA0 # ''chat'' @ [CHR 0x09]]) = Some Chat"
proof -
  have pad': "\<forall>c \<in> set ('' '' @ '' ''). isWhiteSpace c"
    and pad'': "\<forall>c \<in> set ([CHR 0xA0] @ [CHR 0x09]). isWhiteSpace c"
    by (simp_all add: isWhiteSpace_def)
  have padded: "'''' @ '' '' \<noteq> []"
    by simp
  have exitWord: "toLowerCase ''exit'' = ''exit''" and chatWord: "toLowerCase ''CHAT'' = ''chat''"
    and chatWord': "toLowerCase ''chat'' = ''chat''"
    by (simp_all add: toLowerCase_def toLowerCaseChar_def upperCaseLetters_def lowerCaseLetters_def)
  note t = exit_untrimmed_mode_choice_trimmed [OF padded exitWord pad',
      of echoAgent "[]" "[]" "''CHAT''" "[]"]
  note t' = exit_untrimmed_mode_choice_trimmed [OF padded exitWord pad'',
      of echoAgent "[]" "[]" "''chat''" "[]"]
  have ne: "toLowerCase ''exit '' \<noteq> ''exit''"
    using t by simp
  have chat: "chosen (chooseMode ['' CHAT '']) = Some Chat"
    using t chatWord by simp
  have chat': "chosen (chooseMode [CHR 0xA0 # ''chat'' @ [CHR 0x09]]) = Some Chat"
    using t' chatWord' by simp
  have run: "runChatLoop echoAgent [''exit ''] []
      = \<lparr>stdoutWrites = [CHR 0x0A # ''Prompt: '', ''exit '', ''-------------------'',
                           CHR 0x0A # ''Prompt: ''],
         stderrWrites = [], agentAfter = echoAgent\<lparr>received := [''exit '']\<rparr>,
         outcome = AwaitingInput\<rparr>"
    using ne by (simp add: agent_stream_def echoAgent_def printChunk_def)
  show ?thesis
    unfolding run using ne chat chat' by simp
qed

section \<open>Properties of the uploader\<close>

text \<open>Decimal digits: each is one of 0 to 9, and the digit string determines the number.\<close>

lemma digitChar_inj: "d < 10 \<Longrightarrow> e < 10 \<Longrightarrow> digitChar d = digitChar e \<Longrightarrow> d = e"
  unfolding digitChar_def by (subst (asm) nth_eq_iff_index_eq) simp_all

lemma digitChar_in: "d < 10 \<Longrightarrow> digitChar d \<in> set ''0123456789''"
  unfolding digitChar_def by (rule nth_mem) simp

lemma digits_nonempty: "digits n \<noteq> []"
  by (subst digits.simps) simp

lemma digits_chars: "set (digits n) \<subseteq> set ''0123456789''"
proof (induction n rule: digits.induct)
  case (1 n)
  show ?case
  proof (cases "n < 10")
    case True
    then show ?thesis
      using digitChar_in [of n] by (subst digits.simps) simp
  next
    case False
    have "n mod 10 < 10" by simp
    then show ?thesis
      using False 1 digitChar_in [of "n mod 10"] by (subst digits.simps) simp
  qed
qed

lemma digits_no_minus: "CHR ''-'' \<notin> set (digits n)"
  using digits_chars [of n] by auto

lemma digits_inj: "digits n = digits m \<Longrightarrow> n = m"
proof (induction n arbitrary: m rule: digits.induct)
  case (1 n)
  show ?case
  proof (cases "n < 10")
    case small: True
    show ?thesis
    proof (cases "m < 10")
      case True
      then show ?thesis
        using small 1(2) digitChar_inj [of n m] by (simp add: digits.simps [of n] digits.simps [of m])
    next
      case False
      then show ?thesis
        using small 1(2) digits_nonempty [of "m div 10"]
        by (simp add: digits.simps [of n] digits.simps [of m])
    qed
  next
    case large: False
    show ?thesis
    proof (cases "m < 10")
      case True
      then show ?thesis
        using large 1(2) digits_nonempty [of "n div 10"]
        by (simp add: digits.simps [of n] digits.simps [of m])
    next
      case False
      then have eq: "digits (n div 10) = digits (m div 10)" "digitChar (n mod 10) = digitChar (m mod 10)"
        using large 1(2) by (simp_all add: digits.simps [of n] digits.simps [of m])
      have "n div 10 = m div 10"
        using 1(1) [OF large eq(1)] .
      moreover have "n mod 10 = m mod 10"
        using eq(2) by (rule digitChar_inj [rotated 2]) simp_all
      ultimately show ?thesis
        by (metis div_mult_mod_eq)
    qed
  qed
qed

text \<open>So the printed form of an integer determines the integer.\<close>

lemma numberToString_inj: "numberToString i = numberToString j \<Longrightarrow> i = j"
proof -
  assume eq: "numberToString i = numberToString j"
  have no_minus: "digits n \<noteq> CHR ''-'' # s" for n s
    using digits_no_minus [of n] by auto
  show "i = j"
  proof (cases "i < 0"; cases "j < 0")
    assume "i < 0" "j < 0"
    then have "nat (- i) = nat (- j)"
      using eq digits_inj [of "nat (- i)" "nat (- j)"] by (simp add: numberToString_def)
    then show ?thesis
      using \<open>i < 0\<close> \<open>j < 0\<close> by simp
  next
    assume "i < 0" "\<not> j < 0"
    then show ?thesis
      using eq no_minus [of "nat j" "digits (nat (- i))"] by (simp add: numberToString_def)
  next
    assume "\<not> i < 0" "j < 0"
    then show ?thesis
      using eq no_minus [of "nat i" "digits (nat (- j))"] by (simp add: numberToString_def)
  next
    assume "\<not> i < 0" "\<not> j < 0"
    then have "nat i = nat j"
      using eq digits_inj [of "nat i" "nat j"] by (simp add: numberToString_def)
    then show ?thesis
      using \<open>\<not> i < 0\<close> \<open>\<not> j < 0\<close> by simp
  qed
qed

text \<open>
  Two strings cut at a separator that occurs in neither tail are equal only if heads and
  tails are: the object key is cut at its last hyphen, which no digit string contains.
\<close>

lemma split_at_first:
  "c \<notin> set xs \<Longrightarrow> c \<notin> set ys \<Longrightarrow> xs @ c # xs' = ys @ c # ys' \<Longrightarrow> xs = ys \<and> xs' = ys'"
proof (induction xs arbitrary: ys)
  case Nil
  then show ?case by (cases ys) auto
next
  case (Cons x xs)
  then show ?case by (cases ys) auto
qed

lemma split_at_last:
  assumes "c \<notin> set b1" "c \<notin> set b2" "a1 @ c # b1 = a2 @ c # b2"
  shows "a1 = a2 \<and> b1 = b2"
proof -
  have "rev (a1 @ c # b1) = rev (a2 @ c # b2)"
    using assms(3) by simp
  then have "rev b1 @ c # rev a1 = rev b2 @ c # rev a2"
    by simp
  then have "rev b1 = rev b2 \<and> rev a1 = rev a2"
    using assms(1,2) by (intro split_at_first [of c]) simp_all
  then show ?thesis
    by simp
qed

text \<open>
  The key is a function of the clock reading and the random integer, and of nothing else:
  two calls get the same key exactly when they read the same millisecond and draw the same
  integer.
\<close>

lemma objectKey_inj:
  "objectKey now1 suffix1 = objectKey now2 suffix2 \<longleftrightarrow> now1 = now2 \<and> suffix1 = suffix2"
proof
  assume "objectKey now1 suffix1 = objectKey now2 suffix2"
  then have "(numberToString now1 @ CHR ''-'' # digits suffix1) @ ''.png''
               = (numberToString now2 @ CHR ''-'' # digits suffix2) @ ''.png''"
    by (simp add: objectKey_def numberToString_def)
  then have "numberToString now1 @ CHR ''-'' # digits suffix1
               = numberToString now2 @ CHR ''-'' # digits suffix2"
    by (simp only: append_same_eq)
  then have "numberToString now1 = numberToString now2 \<and> digits suffix1 = digits suffix2"
    by (rule split_at_last [rotated 2]) (rule digits_no_minus)+
  then show "now1 = now2 \<and> suffix1 = suffix2"
    using numberToString_inj digits_inj by blast
next
  assume "now1 = now2 \<and> suffix1 = suffix2"
  then show "objectKey now1 suffix1 = objectKey now2 suffix2"
    by simp
qed

text \<open>The key at the example readings.\<close>

lemma objectKey_example:
  "objectKey 1700000000000 4242 = ''ad-images/1700000000000-4242.png''"
  by (simp add: objectKey_def numberToString_def digits.simps digitChar_def)

text \<open>
  Claim C4. The source announces the key as unique ("Generate a unique S3 object key"), and
  the claim says that any two calls get distinct keys. Two calls for the same image URL
  that read the same millisecond from the clock and draw the same random integer both
  succeed, return the same URL and write under the same key: the second object replaces
  the first.
\<close>

theorem uploadImageUrlToS3_key_collision:
  "fst (uploadImageUrlToS3 exampleReadings emptyS3 ''https://dalle.example/img.png'')
     = Inr ''https://placeholderads.s3.ap-south-1.amazonaws.com/ad-images/1700000000000-4242.png'' \<and>
   fst (uploadImageUrlToS3 exampleReadings
          (snd (uploadImageUrlToS3 exampleReadings emptyS3 ''https://dalle.example/img.png''))
          ''https://dalle.example/img.png'')
     = Inr ''https://placeholderads.s3.ap-south-1.amazonaws.com/ad-images/1700000000000-4242.png'' \<and>
   map Key (stored (snd
        (uploadImageUrlToS3 exampleReadings
           (snd (uploadImageUrlToS3 exampleReadings emptyS3 ''https://dalle.example/img.png''))
           ''https://dalle.example/img.png'')))
     = [''ad-images/1700000000000-4242.png'', ''ad-images/1700000000000-4242.png''] \<and>
   \<not> distinct (map Key (stored (snd
        (uploadImageUrlToS3 exampleReadings
           (snd (uploadImageUrlToS3 exampleReadings emptyS3 ''https://dalle.example/img.png''))
           ''https://dalle.example/img.png''))))"
  by (simp add: uploadImageUrlToS3_def s3_upload_def exampleReadings_def emptyS3_def fetchOk_def
      objectKey_example)

end
